theory Spec2Isabelle
  imports Complex_Main "HOL-Library.Multiset"
begin

section \<open>Numbers, optional fields and objects\<close>

text \<open>
  The aggregation code of \<^verbatim>\<open>parser.js\<close> and \<^verbatim>\<open>utils.js\<close> works on JavaScript numbers and
  plain objects. A number is modelled as an exact rational: sums, products and quotients
  are the mathematical ones, so the rounding of IEEE doubles, \<^verbatim>\<open>NaN\<close> and the infinities are
  outside the model. A field that may be absent (\<^verbatim>\<open>undefined\<close>) is an \<open>option\<close>.

  An object used as a dictionary is the list of its own entries in enumeration order
  (what \<^verbatim>\<open>Object.entries\<close> returns); its keys are distinct. Assigning to a key replaces
  the entry in place when the key exists and appends one otherwise. (JavaScript enumerates
  integer-like keys first; such keys are enumerated here where they were inserted, which
  changes no lookup and no sum.)
\<close>

text \<open>\<^verbatim>\<open>x || 0\<close> on a number field: absent and zero both give zero.\<close>

fun or0 :: "rat option \<Rightarrow> rat" where
  "or0 None = 0"
| "or0 (Some v) = v"

text \<open>\<^verbatim>\<open>Object.entries(o)\<close> behind the guard \<^verbatim>\<open>if (o)\<close> (or after \<^verbatim>\<open>o || {}\<close>): nothing to
  iterate when the object is absent.\<close>

fun entries :: "'a list option \<Rightarrow> 'a list" where
  "entries None = []"
| "entries (Some es) = es"

text \<open>\<^verbatim>\<open>o[k] = v\<close>.\<close>

fun obj_set :: "string \<Rightarrow> 'v \<Rightarrow> (string \<times> 'v) list \<Rightarrow> (string \<times> 'v) list" where
  "obj_set k v [] = [(k, v)]"
| "obj_set k v (e # es) = (if fst e = k then (k, v) # es else e # obj_set k v es)"

text \<open>\<^verbatim>\<open>Math.round\<close>: the nearest integer, a tie going up.\<close>

definition Math_round :: "rat \<Rightarrow> rat" where
  "Math_round x = of_int \<lfloor>x + 1 / 2\<rfloor>"

text \<open>\<^verbatim>\<open>Number(x.toFixed(decimals))\<close>: the nearest multiple of \<open>10\<^sup>-\<^sup>d\<close>, a tie going away
  from zero.\<close>

definition toFixed :: "rat \<Rightarrow> nat \<Rightarrow> rat" where
  "toFixed x decimals = sgn x * of_int \<lfloor>\<bar>x\<bar> * 10 ^ decimals + 1 / 2\<rfloor> / 10 ^ decimals"

section \<open>The raw usage record\<close>

record model_stats =
  m_cost :: "rat option"
  m_inputTokens :: "rat option"
  m_outputTokens :: "rat option"

record day_stats =
  d_cost :: "rat option"
  d_tokens :: "rat option"

record raw_usage =
  totalCost :: "rat option"
  totalInputTokens :: "rat option"
  totalOutputTokens :: "rat option"
  totalCacheCreationInputTokens :: "rat option"
  totalCacheReadInputTokens :: "rat option"
  byModel :: "(string \<times> model_stats) list option"
  byDay :: "(string \<times> day_stats) list option"

text \<open>The record both \<^verbatim>\<open>mergeUsageData\<close> and \<^verbatim>\<open>filterByPeriod\<close> start from.\<close>

definition zero_usage :: raw_usage where
  "zero_usage = \<lparr>totalCost = Some 0, totalInputTokens = Some 0, totalOutputTokens = Some 0,
     totalCacheCreationInputTokens = Some 0, totalCacheReadInputTokens = Some 0,
     byModel = Some [], byDay = Some []\<rparr>"

section \<open>mergeUsageData\<close>

text \<open>
  One turn of the inner loops: \<^verbatim>\<open>if (!merged.byModel[model]) merged.byModel[model] = zero\<close>,
  then the \<^verbatim>\<open>+=\<close> on each field of the stored entry. The entry read back after the
  first statement is always there.
\<close>

definition upsert :: "'s \<Rightarrow> ('s \<Rightarrow> 's \<Rightarrow> 's) \<Rightarrow> (string \<times> 's) list \<Rightarrow> string \<times> 's \<Rightarrow> (string \<times> 's) list" where
  "upsert zero add acc e =
     (let k = fst e;
          acc1 = (if map_of acc k = None then obj_set k zero acc else acc)
      in case map_of acc1 k of
           None \<Rightarrow> acc1
         | Some cur \<Rightarrow> obj_set k (add cur (snd e)) acc1)"

definition zero_model :: model_stats where
  "zero_model = \<lparr>m_cost = Some 0, m_inputTokens = Some 0, m_outputTokens = Some 0\<rparr>"

definition add_model :: "model_stats \<Rightarrow> model_stats \<Rightarrow> model_stats" where
  "add_model cur stats =
     \<lparr>m_cost = Some (or0 (m_cost cur) + or0 (m_cost stats)),
      m_inputTokens = Some (or0 (m_inputTokens cur) + or0 (m_inputTokens stats)),
      m_outputTokens = Some (or0 (m_outputTokens cur) + or0 (m_outputTokens stats))\<rparr>"

definition zero_day :: day_stats where
  "zero_day = \<lparr>d_cost = Some 0, d_tokens = Some 0\<rparr>"

definition add_day :: "day_stats \<Rightarrow> day_stats \<Rightarrow> day_stats" where
  "add_day cur stats =
     \<lparr>d_cost = Some (or0 (d_cost cur) + or0 (d_cost stats)),
      d_tokens = Some (or0 (d_tokens cur) + or0 (d_tokens stats))\<rparr>"

text \<open>The body of \<^verbatim>\<open>for (const data of dataArray)\<close>.\<close>

definition merge_step :: "raw_usage \<Rightarrow> raw_usage \<Rightarrow> raw_usage" where
  "merge_step merged data =
     \<lparr>totalCost = Some (or0 (totalCost merged) + or0 (totalCost data)),
      totalInputTokens = Some (or0 (totalInputTokens merged) + or0 (totalInputTokens data)),
      totalOutputTokens = Some (or0 (totalOutputTokens merged) + or0 (totalOutputTokens data)),
      totalCacheCreationInputTokens =
        Some (or0 (totalCacheCreationInputTokens merged) + or0 (totalCacheCreationInputTokens data)),
      totalCacheReadInputTokens =
        Some (or0 (totalCacheReadInputTokens merged) + or0 (totalCacheReadInputTokens data)),
      byModel = Some (foldl (upsert zero_model add_model) (entries (byModel merged)) (entries (byModel data))),
      byDay = Some (foldl (upsert zero_day add_day) (entries (byDay merged)) (entries (byDay data)))\<rparr>"

text \<open>The argument is \<open>None\<close> for a missing array (\<^verbatim>\<open>!dataArray\<close>).\<close>

definition mergeUsageData :: "raw_usage list option \<Rightarrow> raw_usage" where
  "mergeUsageData dataArray =
     (case dataArray of
        None \<Rightarrow> zero_usage
      | Some [] \<Rightarrow> zero_usage
      | Some [d] \<Rightarrow> d
      | Some ds \<Rightarrow> foldl merge_step zero_usage ds)"

section \<open>Period ranges\<close>

text \<open>
  A \<^verbatim>\<open>Date\<close> is its time value, the milliseconds since the epoch in UTC. The current time
  (\<^verbatim>\<open>new Date()\<close>) is a parameter of whatever reads it, and so is the runtime's parser of
  date strings (\<^verbatim>\<open>new Date(s)\<close>), which returns \<open>None\<close> for an invalid date.
\<close>

record period_range =
  startDate :: "int option"
  endDate :: int
  days :: "nat option"

definition msPerDay :: int where
  "msPerDay = 86400000"

text \<open>\<^verbatim>\<open>setUTCHours(0, 0, 0, 0)\<close>.\<close>

definition startOfUTCDay :: "int \<Rightarrow> int" where
  "startOfUTCDay t = (t div msPerDay) * msPerDay"

text \<open>\<^verbatim>\<open>setUTCHours(23, 59, 59, 999)\<close>.\<close>

definition endOfUTCDay :: "int \<Rightarrow> int" where
  "endOfUTCDay t = (t div msPerDay) * msPerDay + (msPerDay - 1)"

definition getPeriodRange :: "string \<Rightarrow> int \<Rightarrow> period_range" where
  "getPeriodRange period referenceDate =
     (if period = ''day'' then
        \<lparr>startDate = Some (startOfUTCDay referenceDate), endDate = endOfUTCDay referenceDate, days = Some 1\<rparr>
      else if period = ''week'' then
        \<lparr>startDate = Some (startOfUTCDay referenceDate - 6 * msPerDay),
         endDate = endOfUTCDay referenceDate, days = Some 7\<rparr>
      else if period = ''month'' then
        \<lparr>startDate = Some (startOfUTCDay referenceDate - 29 * msPerDay),
         endDate = endOfUTCDay referenceDate, days = Some 30\<rparr>
      else
        \<lparr>startDate = None, endDate = endOfUTCDay referenceDate, days = None\<rparr>)"

definition isDateInRange :: "(string \<Rightarrow> int option) \<Rightarrow> string \<Rightarrow> period_range \<Rightarrow> bool" where
  "isDateInRange newDate date rng =
     (case startDate rng of
        None \<Rightarrow> True
      | Some s \<Rightarrow>
          (case newDate date of
             None \<Rightarrow> False
           | Some d \<Rightarrow> s \<le> d \<and> d \<le> endDate rng))"

section \<open>filterByPeriod\<close>

text \<open>The first loop: keep the days in range, adding up their cost.\<close>

definition filter_day ::
  "(string \<Rightarrow> int option) \<Rightarrow> period_range \<Rightarrow> (string \<times> day_stats) list \<times> rat \<Rightarrow> string \<times> day_stats
     \<Rightarrow> (string \<times> day_stats) list \<times> rat" where
  "filter_day newDate rng acc e =
     (if isDateInRange newDate (fst e) rng
      then (obj_set (fst e) (snd e) (fst acc), snd acc + or0 (d_cost (snd e)))
      else acc)"

text \<open>The second loop: every model scaled by the cost ratio.\<close>

definition scale_model :: "rat \<Rightarrow> model_stats \<Rightarrow> model_stats" where
  "scale_model filteredCostRatio stats =
     \<lparr>m_cost = Some (or0 (m_cost stats) * filteredCostRatio),
      m_inputTokens = Some (Math_round (or0 (m_inputTokens stats) * filteredCostRatio)),
      m_outputTokens = Some (Math_round (or0 (m_outputTokens stats) * filteredCostRatio))\<rparr>"

definition filterByPeriod :: "(string \<Rightarrow> int option) \<Rightarrow> int \<Rightarrow> raw_usage \<Rightarrow> string \<Rightarrow> raw_usage" where
  "filterByPeriod newDate now data period =
     (if period = ''all'' then data
      else
        let rng = getPeriodRange period now;
            kept = foldl (filter_day newDate rng) ([], 0) (entries (byDay data));
            filteredTotalCost = snd kept;
            totalOriginalCost = (if or0 (totalCost data) = 0 then 1 else or0 (totalCost data));
            filteredCostRatio = filteredTotalCost / totalOriginalCost
        in \<lparr>totalCost = Some filteredTotalCost,
            totalInputTokens = Some (Math_round (or0 (totalInputTokens data) * filteredCostRatio)),
            totalOutputTokens = Some (Math_round (or0 (totalOutputTokens data) * filteredCostRatio)),
            totalCacheCreationInputTokens =
              Some (Math_round (or0 (totalCacheCreationInputTokens data) * filteredCostRatio)),
            totalCacheReadInputTokens =
              Some (Math_round (or0 (totalCacheReadInputTokens data) * filteredCostRatio)),
            byModel = Some (foldl (\<lambda>acc e. obj_set (fst e) (scale_model filteredCostRatio (snd e)) acc)
                        [] (entries (byModel data))),
            byDay = Some (fst kept)\<rparr>)"

section \<open>calculateSummary\<close>

record daily_average =
  da_tokens :: rat
  da_cost :: rat

record summary =
  s_totalTokens :: rat
  s_totalInputTokens :: rat
  s_totalOutputTokens :: rat
  s_totalCacheCreation :: rat
  s_totalCacheRead :: rat
  s_totalCost :: rat
  s_dailyAverage :: daily_average
  s_periodDays :: nat

definition calculateSummary :: "raw_usage \<Rightarrow> summary" where
  "calculateSummary data =
     (let totalInputTokens' = or0 (totalInputTokens data);
          totalOutputTokens' = or0 (totalOutputTokens data);
          totalCacheCreation = or0 (totalCacheCreationInputTokens data);
          totalCacheRead = or0 (totalCacheReadInputTokens data);
          totalTokens = totalInputTokens' + totalOutputTokens' + totalCacheCreation + totalCacheRead;
          totalCost' = or0 (totalCost data);
          dayKeys = map fst (entries (byDay data));
          periodDays = (if length dayKeys = 0 then 1 else length dayKeys);
          dailyAverage = \<lparr>da_tokens = Math_round (totalTokens / of_nat periodDays),
                          da_cost = totalCost' / of_nat periodDays\<rparr>
      in \<lparr>s_totalTokens = totalTokens, s_totalInputTokens = totalInputTokens',
          s_totalOutputTokens = totalOutputTokens', s_totalCacheCreation = totalCacheCreation,
          s_totalCacheRead = totalCacheRead, s_totalCost = totalCost',
          s_dailyAverage = dailyAverage, s_periodDays = periodDays\<rparr>)"

section \<open>shortenModelName\<close>

text \<open>
  The regular expression \<^verbatim>\<open>/claude-(\w+)-(\d+)(?:-(\d+))?-\d{8}/i\<close>. Each of its three
  repetitions is followed by a hyphen, which none of them can match, so each takes the
  whole run of its characters; the optional group is tried first, and the match is the
  one at the leftmost position that has any.
\<close>

definition isDigit :: "char \<Rightarrow> bool" where
  "isDigit c = (let n = (of_char c :: nat) in 48 \<le> n \<and> n \<le> 57)"

definition isWordChar :: "char \<Rightarrow> bool" where
  "isWordChar c = (let n = (of_char c :: nat) in
     (48 \<le> n \<and> n \<le> 57) \<or> (65 \<le> n \<and> n \<le> 90) \<or> (97 \<le> n \<and> n \<le> 122) \<or> n = 95)"

definition toLowerAscii :: "char \<Rightarrow> char" where
  "toLowerAscii c = (let n = (of_char c :: nat) in if 65 \<le> n \<and> n \<le> 90 then char_of (n + 32) else c)"

text \<open>\<^verbatim>\<open>-\d{8}\<close> at the head of a string.\<close>

definition dashEightDigits :: "string \<Rightarrow> bool" where
  "dashEightDigits s =
     (case s of
        [] \<Rightarrow> False
      | c # r \<Rightarrow> c = CHR ''-'' \<and> length (take 8 r) = 8 \<and> list_all isDigit (take 8 r))"

text \<open>The match that starts at the head of a string: type, major and, when the group
  matched, minor.\<close>

definition matchModelAt :: "string \<Rightarrow> (string \<times> string \<times> string option) option" where
  "matchModelAt s =
     (if map toLowerAscii (take 7 s) \<noteq> ''claude-'' then None
      else
        let r1 = drop 7 s;
            type = takeWhile isWordChar r1;
            r2 = dropWhile isWordChar r1
        in if type = [] then None
           else (case r2 of
             [] \<Rightarrow> None
           | c # r3 \<Rightarrow>
               if c \<noteq> CHR ''-'' then None
               else
                 let major = takeWhile isDigit r3;
                     r4 = dropWhile isDigit r3
                 in if major = [] then None
                    else
                      let minor = takeWhile isDigit (drop 1 r4);
                          r5 = dropWhile isDigit (drop 1 r4)
                      in if take 1 r4 = ''-'' \<and> minor \<noteq> [] \<and> dashEightDigits r5
                         then Some (type, major, Some minor)
                         else if dashEightDigits r4 then Some (type, major, None)
                         else None))"

fun matchModel :: "string \<Rightarrow> (string \<times> string \<times> string option) option" where
  "matchModel [] = matchModelAt []"
| "matchModel (c # cs) =
     (case matchModelAt (c # cs) of
        Some m \<Rightarrow> Some m
      | None \<Rightarrow> matchModel cs)"

text \<open>\<^verbatim>\<open>s.split('-')\<close> and \<^verbatim>\<open>parts.join('-')\<close>.\<close>

fun splitOn :: "char \<Rightarrow> string \<Rightarrow> string list" where
  "splitOn sep [] = [[]]"
| "splitOn sep (c # cs) =
     (if c = sep then [] # splitOn sep cs
      else (case splitOn sep cs of
              [] \<Rightarrow> [[c]]
            | p # ps \<Rightarrow> (c # p) # ps))"

fun joinWith :: "string \<Rightarrow> string list \<Rightarrow> string" where
  "joinWith sep [] = []"
| "joinWith sep [p] = p"
| "joinWith sep (p # q # ps) = p @ sep @ joinWith sep (q # ps)"

definition shortenModelName :: "string \<Rightarrow> string" where
  "shortenModelName modelName =
     (if modelName = [] then ''unknown''
      else (case matchModel modelName of
              Some (type, major, Some minor) \<Rightarrow> type @ ''-'' @ major @ ''.'' @ minor
            | Some (type, major, None) \<Rightarrow> type @ ''-'' @ major
            | None \<Rightarrow>
                (let parts = splitOn CHR ''-'' modelName
                 in joinWith ''-'' (drop (length parts - 2) parts))))"

section \<open>getModelBreakdown\<close>

definition calculatePercentage :: "rat \<Rightarrow> rat \<Rightarrow> nat \<Rightarrow> rat" where
  "calculatePercentage v total' decimals =
     (if total' = 0 then 0 else toFixed ((v / total') * 100) decimals)"

record model_entry =
  name :: string
  shortName :: string
  cost :: rat
  inputTokens :: rat
  outputTokens :: rat
  percentage :: rat

text \<open>The sort is stable and the comparator is \<^verbatim>\<open>b.cost - a.cost\<close>: descending by cost,
  equal costs staying in enumeration order.\<close>

definition getModelBreakdown :: "raw_usage \<Rightarrow> model_entry list" where
  "getModelBreakdown data =
     (let byModel' = entries (byModel data);
          totalCost' = or0 (totalCost data);
          models = map (\<lambda>e. \<lparr>name = fst e, shortName = shortenModelName (fst e),
                               cost = or0 (m_cost (snd e)),
                               inputTokens = or0 (m_inputTokens (snd e)),
                               outputTokens = or0 (m_outputTokens (snd e)),
                               percentage = calculatePercentage (or0 (m_cost (snd e))) totalCost' 0\<rparr>)
                       byModel'
      in sort_key (\<lambda>m. - cost m) models)"

section \<open>validateData\<close>

text \<open>
  The validator takes any value. An object is the list of its own properties; reading a
  property that is not there gives \<^verbatim>\<open>undefined\<close>, and so does reading one of the names the
  validator reads from an array.
\<close>

datatype jsval =
  Undefined
  | Null
  | Bool bool
  | Num rat
  | NaN
  | Str string
  | Arr "jsval list"
  | Obj "(string \<times> jsval) list"
  | Function

fun typeof :: "jsval \<Rightarrow> string" where
  "typeof Undefined = ''undefined''"
| "typeof Null = ''object''"
| "typeof (Bool b) = ''boolean''"
| "typeof (Num n) = ''number''"
| "typeof NaN = ''number''"
| "typeof (Str s) = ''string''"
| "typeof (Arr xs) = ''object''"
| "typeof (Obj ps) = ''object''"
| "typeof Function = ''function''"

fun truthy :: "jsval \<Rightarrow> bool" where
  "truthy Undefined = False"
| "truthy Null = False"
| "truthy (Bool b) = b"
| "truthy (Num n) = (n \<noteq> 0)"
| "truthy NaN = False"
| "truthy (Str s) = (s \<noteq> [])"
| "truthy (Arr xs) = True"
| "truthy (Obj ps) = True"
| "truthy Function = True"

fun isArray :: "jsval \<Rightarrow> bool" where
  "isArray (Arr xs) = True"
| "isArray v = False"

fun getProp :: "jsval \<Rightarrow> string \<Rightarrow> jsval" where
  "getProp (Obj ps) k = (case map_of ps k of None \<Rightarrow> Undefined | Some v \<Rightarrow> v)"
| "getProp v k = Undefined"

record validation =
  isValid :: bool
  errors :: "string list"

definition validateData :: "jsval \<Rightarrow> validation" where
  "validateData data =
     (if \<not> truthy data \<or> typeof data \<noteq> ''object'' then
        \<lparr>isValid = False, errors = [''Data must be an object'']\<rparr>
      else
        let isCcusageFormat = (isArray (getProp data ''daily'') \<or> truthy (getProp data ''totals''));
            errs =
              (if isCcusageFormat then
                 (if truthy (getProp data ''daily'') \<and> \<not> isArray (getProp data ''daily'')
                  then [''daily must be an array''] else [])
                 @ (if truthy (getProp data ''totals'') \<and> typeof (getProp data ''totals'') \<noteq> ''object''
                    then [''totals must be an object''] else [])
               else
                 (if typeof (getProp data ''totalCost'') \<noteq> ''number''
                  then [''totalCost must be a number''] else [])
                 @ (if truthy (getProp data ''byModel'') \<and> typeof (getProp data ''byModel'') \<noteq> ''object''
                    then [''byModel must be an object''] else [])
                 @ (if truthy (getProp data ''byDay'') \<and> typeof (getProp data ''byDay'') \<noteq> ''object''
                    then [''byDay must be an object''] else []))
        in \<lparr>isValid = (length errs = 0), errors = errs\<rparr>)"

section \<open>Notions the properties are stated with\<close>

text \<open>The days a filter keeps: the entries of \<open>byDay\<close> whose date is in the range of the period.\<close>

definition inside :: "(string \<Rightarrow> int option) \<Rightarrow> int \<Rightarrow> string \<Rightarrow> raw_usage \<Rightarrow> (string \<times> day_stats) list" where
  "inside newDate now period data =
     filter (\<lambda>e. isDateInRange newDate (fst e) (getPeriodRange period now)) (entries (byDay data))"

text \<open>The ratio the filter scales by, given the cost it kept: that cost over the original
  total cost, the divisor being 1 when that total is zero or absent
  (\<^verbatim>\<open>data.totalCost || 1\<close>).\<close>

definition costRatio :: "rat \<Rightarrow> raw_usage \<Rightarrow> rat" where
  "costRatio filteredTotalCost data =
     (if or0 (totalCost data) = 0 then filteredTotalCost else filteredTotalCost / or0 (totalCost data))"



section \<open>A date parser\<close>

text \<open>
  The date-only ISO form \<^verbatim>\<open>YYYY-MM-DD\<close>, which \<^verbatim>\<open>new Date(s)\<close> reads as midnight UTC of that
  day. Every other string is invalid here. The properties below hold for every parser;
  this one instantiates them.
\<close>

definition digitOf :: "char \<Rightarrow> nat option" where
  "digitOf c = (let n = (of_char c :: nat) in if 48 \<le> n \<and> n \<le> 57 then Some (n - 48) else None)"

fun digits :: "nat \<Rightarrow> string \<Rightarrow> nat option" where
  "digits acc [] = Some acc"
| "digits acc (c # cs) = (case digitOf c of None \<Rightarrow> None | Some n \<Rightarrow> digits (10 * acc + n) cs)"

text \<open>Days from the epoch to a day of the proleptic Gregorian calendar.\<close>

definition daysFromCivil :: "int \<Rightarrow> int \<Rightarrow> int \<Rightarrow> int" where
  "daysFromCivil y m d =
     (let y' = (if m \<le> 2 then y - 1 else y);
          era = y' div 400;
          yoe = y' - era * 400;
          doy = (153 * (if m > 2 then m - 3 else m + 9) + 2) div 5 + d - 1;
          doe = yoe * 365 + yoe div 4 - yoe div 100 + doy
      in era * 146097 + doe - 719468)"

definition parseIsoDate :: "string \<Rightarrow> int option" where
  "parseIsoDate s =
     (if length s = 10 \<and> s ! 4 = CHR ''-'' \<and> s ! 7 = CHR ''-'' then
        (case (digits 0 (take 4 s), digits 0 (take 2 (drop 5 s)), digits 0 (drop 8 s)) of
           (Some y, Some m, Some d) \<Rightarrow>
             if 1 \<le> m \<and> m \<le> 12 \<and> 1 \<le> d \<and> d \<le> 31
             then Some (daysFromCivil (int y) (int m) (int d) * msPerDay) else None
         | _ \<Rightarrow> None)
      else None)"

section \<open>Sample records\<close>

text \<open>Noon UTC of 14 January 2025, the reference date of the range tests.\<close>

definition refNow :: int where
  "refNow = 1736856000000"

text \<open>The record of the filter tests: six days at 50 each, today and 1, 2, 4, 10 and 40
  days before, and one model carrying the whole cost of 300.\<close>

definition week_example :: raw_usage where
  "week_example = \<lparr>totalCost = Some 300, totalInputTokens = Some 3000000, totalOutputTokens = Some 1500000,
     totalCacheCreationInputTokens = Some 0, totalCacheReadInputTokens = Some 0,
     byModel = Some [(''claude-sonnet-4-20250514'',
        \<lparr>m_cost = Some 300, m_inputTokens = Some 3000000, m_outputTokens = Some 1500000\<rparr>)],
     byDay = Some [(''2025-01-14'', \<lparr>d_cost = Some 50, d_tokens = Some 500000\<rparr>),
                   (''2025-01-13'', \<lparr>d_cost = Some 50, d_tokens = Some 500000\<rparr>),
                   (''2025-01-12'', \<lparr>d_cost = Some 50, d_tokens = Some 500000\<rparr>),
                   (''2025-01-10'', \<lparr>d_cost = Some 50, d_tokens = Some 500000\<rparr>),
                   (''2025-01-04'', \<lparr>d_cost = Some 50, d_tokens = Some 500000\<rparr>),
                   (''2024-12-05'', \<lparr>d_cost = Some 50, d_tokens = Some 500000\<rparr>)]\<rparr>"



text \<open>The record of the parser tests.\<close>

definition sample_example :: raw_usage where
  "sample_example = \<lparr>totalCost = Some (84723 / 100), totalInputTokens = Some 45000000,
     totalOutputTokens = Some 12000000, totalCacheCreationInputTokens = Some 5000000,
     totalCacheReadInputTokens = Some 63000000,
     byModel = Some [(''claude-sonnet-4-20250514'',
                      \<lparr>m_cost = Some (52015 / 100), m_inputTokens = Some 30000000, m_outputTokens = Some 8000000\<rparr>),
                     (''claude-opus-4-20250514'',
                      \<lparr>m_cost = Some (32708 / 100), m_inputTokens = Some 15000000, m_outputTokens = Some 4000000\<rparr>)],
     byDay = Some [(''2025-01-14'', \<lparr>d_cost = Some (4523 / 100), d_tokens = Some 2500000\<rparr>),
                   (''2025-01-13'', \<lparr>d_cost = Some (3812 / 100), d_tokens = Some 2100000\<rparr>),
                   (''2025-01-12'', \<lparr>d_cost = Some (5287 / 100), d_tokens = Some 2900000\<rparr>)]\<rparr>"

text \<open>The empty object \<^verbatim>\<open>{}\<close> as a record: every field absent.\<close>

definition empty_usage :: raw_usage where
  "empty_usage = \<lparr>totalCost = None, totalInputTokens = None, totalOutputTokens = None,
     totalCacheCreationInputTokens = None, totalCacheReadInputTokens = None,
     byModel = None, byDay = None\<rparr>"




section \<open>Assignments to a dictionary\<close>

lemma obj_set_fresh: "k \<notin> fst ` set es \<Longrightarrow> obj_set k v es = es @ [(k, v)]"
  by (induction es) auto















section \<open>Properties of mergeUsageData\<close>

text \<open>
  C3. Merging a one-element sequence returns that element, and merging the empty
  sequence returns the all-zero record: cost 0, the four token totals 0, and empty
  \<open>byModel\<close> and \<open>byDay\<close>.
\<close>

theorem merge_identity:
  "mergeUsageData (Some [d]) = d \<and>
   mergeUsageData (Some []) =
     \<lparr>totalCost = Some 0, totalInputTokens = Some 0, totalOutputTokens = Some 0,
      totalCacheCreationInputTokens = Some 0, totalCacheReadInputTokens = Some 0,
      byModel = Some [], byDay = Some []\<rparr>"
  by (simp add: mergeUsageData_def zero_usage_def)

subsection \<open>The merged record, key by key\<close>










subsection \<open>Order and grouping\<close>



section \<open>Properties of filterByPeriod\<close>

subsection \<open>The two loops\<close>

lemma foldl_filter_day_snd:
  "snd (foldl (filter_day nd r) acc es) =
     snd acc + sum_list (map (\<lambda>e. or0 (d_cost (snd e))) (filter (\<lambda>e. isDateInRange nd (fst e) r) es))"
  by (induction es arbitrary: acc) (auto simp: filter_day_def)

lemma foldl_filter_day_fst:
  "distinct (map fst es) \<Longrightarrow> fst ` set (fst acc) \<inter> fst ` set es = {} \<Longrightarrow>
   fst (foldl (filter_day nd r) acc es) = fst acc @ filter (\<lambda>e. isDateInRange nd (fst e) r) es"
proof (induction es arbitrary: acc)
  case Nil
  then show ?case by simp
next
  case (Cons e es)
  show ?case
  proof (cases "isDateInRange nd (fst e) r")
    case True
    have fresh: "fst e \<notin> fst ` set (fst acc)" using Cons.prems(2) by auto
    let ?acc' = "(fst acc @ [e], snd acc + or0 (d_cost (snd e)))"
    have step: "filter_day nd r acc e = ?acc'"
      using True fresh by (simp add: filter_day_def obj_set_fresh)
    have "fst ` set (fst ?acc') \<inter> fst ` set es = {}"
      using Cons.prems by auto
    with Cons.IH[of ?acc'] Cons.prems(1) step True show ?thesis by simp
  next
    case False
    then have step: "filter_day nd r acc e = acc" by (simp add: filter_day_def)
    have "fst ` set (fst acc) \<inter> fst ` set es = {}" using Cons.prems(2) by auto
    with Cons.IH[of acc] Cons.prems(1) step False show ?thesis by simp
  qed
qed

lemma foldl_scale:
  "distinct (map fst es) \<Longrightarrow> fst ` set acc \<inter> fst ` set es = {} \<Longrightarrow>
   foldl (\<lambda>acc e. obj_set (fst e) (g e) acc) acc es = acc @ map (\<lambda>e. (fst e, g e)) es"
proof (induction es arbitrary: acc)
  case Nil
  then show ?case by simp
next
  case (Cons e es)
  have fresh: "fst e \<notin> fst ` set acc" using Cons.prems(2) by auto
  have "fst ` set (acc @ [(fst e, g e)]) \<inter> fst ` set es = {}"
    using Cons.prems by auto
  with Cons.IH[of "acc @ [(fst e, g e)]"] Cons.prems(1) fresh show ?case
    by (simp add: obj_set_fresh)
qed

lemma foldl_scale_Nil:
  "distinct (map fst es) \<Longrightarrow>
   foldl (\<lambda>acc e. obj_set (fst e) (g e) acc) [] es = map (\<lambda>e. (fst e, g e)) es"
  using foldl_scale[of es "[]" g] by simp

lemma Math_round_near: "\<bar>Math_round x - x\<bar> \<le> 1 / 2"
  unfolding Math_round_def by linarith

lemma Math_round_int: "Math_round x \<in> \<int>"
  unfolding Math_round_def by simp


subsection \<open>The fields of a filtered record\<close>

lemma filter_totalCost:
  "period \<noteq> ''all'' \<Longrightarrow>
   totalCost (filterByPeriod newDate now data period) =
     Some (sum_list (map (\<lambda>e. or0 (d_cost (snd e))) (inside newDate now period data)))"
  by (simp add: filterByPeriod_def Let_def foldl_filter_day_snd inside_def)

lemma filter_byDay:
  "period \<noteq> ''all'' \<Longrightarrow> distinct (map fst (entries (byDay data))) \<Longrightarrow>
   byDay (filterByPeriod newDate now data period) = Some (inside newDate now period data)"
  by (simp add: filterByPeriod_def Let_def foldl_filter_day_fst inside_def)


lemma filter_byModel:
  assumes "period \<noteq> ''all''" and "distinct (map fst (entries (byModel data)))"
  shows "byModel (filterByPeriod newDate now data period) =
           Some (map (\<lambda>e. (fst e, scale_model
                   (costRatio (or0 (totalCost (filterByPeriod newDate now data period))) data) (snd e)))
                 (entries (byModel data)))"
  using assms by (simp add: filterByPeriod_def Let_def costRatio_def foldl_scale_Nil)

lemma in_range_iff:
  "period = ''day'' \<or> period = ''week'' \<or> period = ''month'' \<Longrightarrow>
   isDateInRange newDate date (getPeriodRange period now) \<longleftrightarrow>
     (\<exists>d. newDate date = Some d \<and>
        startOfUTCDay now - (if period = ''day'' then 0 else if period = ''week'' then 6 else 29) * msPerDay \<le> d \<and>
        d \<le> startOfUTCDay now + msPerDay - 1)"
  by (auto simp: isDateInRange_def getPeriodRange_def startOfUTCDay_def endOfUTCDay_def split: option.splits)

lemma week_example_distinct: "distinct (map fst (entries (byDay week_example)))"
  by code_simp

lemma week_example_inside:
  "inside parseIsoDate refNow ''week'' week_example =
     [(''2025-01-14'', \<lparr>d_cost = Some 50, d_tokens = Some 500000\<rparr>),
      (''2025-01-13'', \<lparr>d_cost = Some 50, d_tokens = Some 500000\<rparr>),
      (''2025-01-12'', \<lparr>d_cost = Some 50, d_tokens = Some 500000\<rparr>),
      (''2025-01-10'', \<lparr>d_cost = Some 50, d_tokens = Some 500000\<rparr>)]"
  by code_simp

subsection \<open>The identity on \<open>all\<close>\<close>

text \<open>
  C4. Filtering by the tag \<open>all\<close> returns the input record itself, whatever the
  current time and the date parser: the same five totals and the same \<open>byModel\<close> and
  \<open>byDay\<close>.
\<close>

theorem filter_all_identity:
  "filterByPeriod newDate now data ''all'' = data"
  by (simp add: filterByPeriod_def)

subsection \<open>Conservation of the cost\<close>

text \<open>
  C1. For the tags \<open>day\<close>, \<open>week\<close> and \<open>month\<close>, and a record whose \<open>byDay\<close> keys are
  distinct, the total cost of the filtered record is the sum of the costs of the days
  inside the range (an absent cost counting as 0), its \<open>byDay\<close> holds exactly those
  entries, each as it was, and a day is inside when its date parses to a time from
  00:00:00.000 of the first day of the range (today, 6 days or 29 days back) to
  23:59:59.999 of today, in UTC.
\<close>

theorem filter_conservation:
  assumes "period = ''day'' \<or> period = ''week'' \<or> period = ''month''"
    and "distinct (map fst (entries (byDay data)))"
  shows "totalCost (filterByPeriod newDate now data period) =
           Some (sum_list (map (\<lambda>e. or0 (d_cost (snd e))) (inside newDate now period data)))
       \<and> byDay (filterByPeriod newDate now data period) = Some (inside newDate now period data)
       \<and> set (inside newDate now period data) =
           {e \<in> set (entries (byDay data)).
              \<exists>d. newDate (fst e) = Some d \<and>
                startOfUTCDay now - (if period = ''day'' then 0 else if period = ''week'' then 6 else 29) * msPerDay \<le> d \<and>
                d \<le> startOfUTCDay now + msPerDay - 1}"
proof -
  have ne: "period \<noteq> ''all''" using assms(1) by auto
  have "set (inside newDate now period data) =
           {e \<in> set (entries (byDay data)). isDateInRange newDate (fst e) (getPeriodRange period now)}"
    by (auto simp: inside_def)
  then show ?thesis
    using filter_totalCost[OF ne] filter_byDay[OF ne assms(2)] in_range_iff[OF assms(1)]
    by simp
qed

theorem filter_conservation_witness:
  "distinct (map fst (entries (byDay week_example)))
   \<and> totalCost (filterByPeriod parseIsoDate refNow week_example ''week'') = Some 200
   \<and> byDay (filterByPeriod parseIsoDate refNow week_example ''week'') =
       Some [(''2025-01-14'', \<lparr>d_cost = Some 50, d_tokens = Some 500000\<rparr>),
             (''2025-01-13'', \<lparr>d_cost = Some 50, d_tokens = Some 500000\<rparr>),
             (''2025-01-12'', \<lparr>d_cost = Some 50, d_tokens = Some 500000\<rparr>),
             (''2025-01-10'', \<lparr>d_cost = Some 50, d_tokens = Some 500000\<rparr>)]"
  using filter_conservation[of "''week''" week_example parseIsoDate refNow, OF _ week_example_distinct]
  by (simp add: week_example_inside week_example_distinct)

subsection \<open>The token totals\<close>




subsection \<open>Unrecognised period tags\<close>



subsection \<open>The week scenario\<close>

lemma sum_list_all_eq: "\<forall>x\<in>set xs. f x = c \<Longrightarrow> sum_list (map f xs) = of_nat (length xs) * (c::rat)"
  by (induction xs) (auto simp: algebra_simps)

lemma map_of_scaled:
  "map_of (map (\<lambda>e. (fst e, g (snd e))) es) k = map_option g (map_of es k)"
  by (induction es) auto

text \<open>
  C6, as the code has it. Filtering by \<open>week\<close> a record whose \<open>byDay\<close> holds six days of
  cost 50 each, of which exactly four are inside the week range, gives total cost 200, and
  a \<open>byModel\<close> entry of original cost 300 against the original total cost 300 is scaled
  to 300 * (200 / 300) = 200. The \<open>byModel\<close> keys are distinct.
\<close>

theorem week_scenario:
  assumes "length (entries (byDay data)) = 6"
    and "\<forall>e\<in>set (entries (byDay data)). d_cost (snd e) = Some 50"
    and "length (inside newDate now ''week'' data) = 4"
    and "totalCost data = Some 300"
    and "distinct (map fst (entries (byModel data)))"
    and "(model, stats) \<in> set (entries (byModel data))"
    and "m_cost stats = Some 300"
  shows "totalCost (filterByPeriod newDate now data ''week'') = Some 200 \<and>
         (\<exists>scaled. map_of (entries (byModel (filterByPeriod newDate now data ''week''))) model = Some scaled
            \<and> m_cost scaled = Some (300 * (200 / 300)) \<and> m_cost scaled = Some 200)"
proof -
  have ne: "''week'' \<noteq> ''all''" by simp
  have "\<forall>e\<in>set (inside newDate now ''week'' data). or0 (d_cost (snd e)) = 50"
    using assms(2) by (auto simp: inside_def)
  from sum_list_all_eq[OF this]
  have "sum_list (map (\<lambda>e. or0 (d_cost (snd e))) (inside newDate now ''week'' data)) = 200"
    using assms(3) by simp
  then have tc: "totalCost (filterByPeriod newDate now data ''week'') = Some 200"
    using filter_totalCost[OF ne, of newDate now data] by simp
  have look: "map_of (entries (byModel data)) model = Some stats"
    using assms(5,6) by simp
  have "map_of (entries (byModel (filterByPeriod newDate now data ''week''))) model =
          Some (scale_model (200 / 300) stats)"
    using filter_byModel[OF ne assms(5), of newDate now] tc assms(4) look
    by (simp add: map_of_scaled costRatio_def)
  moreover have "m_cost (scale_model (200 / 300) stats) = Some 200"
    using assms(7) by (simp add: scale_model_def)
  ultimately show ?thesis using tc by simp
qed

theorem week_scenario_witness:
  "length (inside parseIsoDate refNow ''week'' week_example) = 4 \<and>
   totalCost (filterByPeriod parseIsoDate refNow week_example ''week'') = Some 200 \<and>
   map_option m_cost (map_of (entries (byModel (filterByPeriod parseIsoDate refNow week_example ''week'')))
       ''claude-sonnet-4-20250514'') = Some (Some 200)"
proof -
  have h: "length (entries (byDay week_example)) = 6"
      "\<forall>e\<in>set (entries (byDay week_example)). d_cost (snd e) = Some 50"
      "totalCost week_example = Some 300"
      "distinct (map fst (entries (byModel week_example)))"
      "(''claude-sonnet-4-20250514'', \<lparr>m_cost = Some 300, m_inputTokens = Some 3000000, m_outputTokens = Some 1500000\<rparr>)
          \<in> set (entries (byModel week_example))"
    by (simp_all add: week_example_def)
  have i: "length (inside parseIsoDate refNow ''week'' week_example) = 4"
    by (simp add: week_example_inside)
  show ?thesis
    using week_scenario[OF h(1,2) i h(3,4,5)] i by auto
qed

text \<open>The specification has the entry scaled to 200 * (200 / 300), about 133.33; on
  the record of the filter tests the entry's cost is 200.\<close>

theorem week_scenario_counterexample:
  "map (\<lambda>e. m_cost (snd e)) (entries (byModel (filterByPeriod parseIsoDate refNow week_example ''week'')))
     = [Some 200] \<and> (200 :: rat) \<noteq> 200 * (200 / 300)"
proof
  show "map (\<lambda>e. m_cost (snd e)) (entries (byModel (filterByPeriod parseIsoDate refNow week_example ''week'')))
     = [Some 200]"
    by code_simp
  show "(200 :: rat) \<noteq> 200 * (200 / 300)" by simp
qed

section \<open>Properties of calculateSummary\<close>

text \<open>
  C8. For every record, absent fields counting as 0: the summary's total tokens are the
  sum of the four token totals; its period days are the number of \<open>byDay\<close> entries (the
  number of keys, the keys being distinct), or 1 when there are none; the daily average of
  tokens is total tokens over period days rounded to the nearest integer by
  \<^verbatim>\<open>Math.round\<close>; the daily average of cost is total cost over period days, not rounded.
  The empty record gives total tokens 0, total cost 0 and period days 1.
\<close>

theorem summary_fields:
  "s_totalTokens (calculateSummary data) =
      or0 (totalInputTokens data) + or0 (totalOutputTokens data)
      + or0 (totalCacheCreationInputTokens data) + or0 (totalCacheReadInputTokens data)
   \<and> s_totalCost (calculateSummary data) = or0 (totalCost data)
   \<and> s_periodDays (calculateSummary data) =
        (if entries (byDay data) = [] then 1 else length (entries (byDay data)))
   \<and> (distinct (map fst (entries (byDay data))) \<and> entries (byDay data) \<noteq> [] \<longrightarrow>
        s_periodDays (calculateSummary data) = card (fst ` set (entries (byDay data))))
   \<and> da_tokens (s_dailyAverage (calculateSummary data)) =
        Math_round (s_totalTokens (calculateSummary data) / of_nat (s_periodDays (calculateSummary data)))
   \<and> da_tokens (s_dailyAverage (calculateSummary data)) \<in> \<int>
   \<and> \<bar>da_tokens (s_dailyAverage (calculateSummary data))
        - s_totalTokens (calculateSummary data) / of_nat (s_periodDays (calculateSummary data))\<bar> \<le> 1 / 2
   \<and> da_cost (s_dailyAverage (calculateSummary data)) =
        or0 (totalCost data) / of_nat (s_periodDays (calculateSummary data))
   \<and> s_totalTokens (calculateSummary empty_usage) = 0
   \<and> s_totalCost (calculateSummary empty_usage) = 0
   \<and> s_periodDays (calculateSummary empty_usage) = 1"
proof -
  have card: "distinct (map fst (entries (byDay data))) \<Longrightarrow>
      length (entries (byDay data)) = card (fst ` set (entries (byDay data)))"
    using distinct_card[of "map fst (entries (byDay data))"] by simp
  show ?thesis
    using card Math_round_near[of "s_totalTokens (calculateSummary data) / of_nat (s_periodDays (calculateSummary data))"]
    by (simp add: calculateSummary_def Let_def empty_usage_def Math_round_int)
qed

theorem summary_fields_witness:
  "s_totalTokens (calculateSummary sample_example) = 125000000
   \<and> s_periodDays (calculateSummary sample_example) = 3
   \<and> card (fst ` set (entries (byDay sample_example))) = 3
   \<and> da_tokens (s_dailyAverage (calculateSummary sample_example)) = 41666667
   \<and> da_cost (s_dailyAverage (calculateSummary sample_example)) = 28241 / 100"
proof -
  have d: "distinct (map fst (entries (byDay sample_example)))" "entries (byDay sample_example) \<noteq> []"
    by code_simp+
  have v: "s_totalTokens (calculateSummary sample_example) = 125000000"
     "s_periodDays (calculateSummary sample_example) = 3"
     "da_tokens (s_dailyAverage (calculateSummary sample_example)) = 41666667"
     "da_cost (s_dailyAverage (calculateSummary sample_example)) = 28241 / 100"
    by code_simp+
  show ?thesis
    using summary_fields[of sample_example] d v by simp
qed

section \<open>Properties of getModelBreakdown\<close>





lemma sum_list_sort_key: "sum_list (map f (sort_key k xs)) = sum_list (map (f :: 'a \<Rightarrow> rat) xs)"
proof -
  have "mset (map f (sort_key k xs)) = mset (map f xs)"
    by simp
  then show ?thesis by (metis sum_mset_sum_list)
qed




lemma breakdown_cost_sum:
  "sum_list (map cost (getModelBreakdown data)) = sum_list (map (\<lambda>e. or0 (m_cost (snd e))) (entries (byModel data)))"
  by (simp add: getModelBreakdown_def Let_def sum_list_sort_key comp_def)






section \<open>Properties of validateData\<close>

text \<open>
  C9. On \<open>null\<close> or a value that is not an object the validator returns invalid with the
  one error \<^verbatim>\<open>Data must be an object\<close> and checks nothing else. On an object every check
  of its shape that fails contributes its own message, whatever the other checks do: a
  message is among the errors exactly when its check fails, no message is there twice, and
  the result is valid exactly when there is no error. So an object of the internal shape
  that fails the \<open>totalCost\<close> check and the \<open>byModel\<close> check, and passes the \<open>byDay\<close>
  check, has exactly those two errors. And \<^verbatim>\<open>{totalCost: "x"}\<close> is invalid with the error
  \<^verbatim>\<open>totalCost must be a number\<close>.
\<close>

theorem validate_accumulates:
  "(\<not> (truthy data \<and> typeof data = ''object'') \<longrightarrow>
      validateData data = \<lparr>isValid = False, errors = [''Data must be an object'']\<rparr>)
   \<and> (truthy data \<and> typeof data = ''object''
        \<and> \<not> isArray (getProp data ''daily'') \<and> \<not> truthy (getProp data ''totals'') \<longrightarrow>
        (''totalCost must be a number'' \<in> set (errors (validateData data))
           \<longleftrightarrow> typeof (getProp data ''totalCost'') \<noteq> ''number'')
      \<and> (''byModel must be an object'' \<in> set (errors (validateData data))
           \<longleftrightarrow> truthy (getProp data ''byModel'') \<and> typeof (getProp data ''byModel'') \<noteq> ''object'')
      \<and> (''byDay must be an object'' \<in> set (errors (validateData data))
           \<longleftrightarrow> truthy (getProp data ''byDay'') \<and> typeof (getProp data ''byDay'') \<noteq> ''object'')
      \<and> set (errors (validateData data))
           \<subseteq> {''totalCost must be a number'', ''byModel must be an object'', ''byDay must be an object''}
      \<and> distinct (errors (validateData data))
      \<and> isValid (validateData data) = (errors (validateData data) = [])
      \<and> (typeof (getProp data ''totalCost'') \<noteq> ''number''
          \<and> truthy (getProp data ''byModel'') \<and> typeof (getProp data ''byModel'') \<noteq> ''object''
          \<and> \<not> (truthy (getProp data ''byDay'') \<and> typeof (getProp data ''byDay'') \<noteq> ''object'') \<longrightarrow>
            errors (validateData data) = [''totalCost must be a number'', ''byModel must be an object'']
          \<and> length (errors (validateData data)) = 2
          \<and> \<not> isValid (validateData data)))
   \<and> (truthy data \<and> typeof data = ''object''
        \<and> (isArray (getProp data ''daily'') \<or> truthy (getProp data ''totals'')) \<longrightarrow>
        (''daily must be an array'' \<in> set (errors (validateData data))
           \<longleftrightarrow> truthy (getProp data ''daily'') \<and> \<not> isArray (getProp data ''daily''))
      \<and> (''totals must be an object'' \<in> set (errors (validateData data))
           \<longleftrightarrow> truthy (getProp data ''totals'') \<and> typeof (getProp data ''totals'') \<noteq> ''object'')
      \<and> set (errors (validateData data)) \<subseteq> {''daily must be an array'', ''totals must be an object''}
      \<and> distinct (errors (validateData data))
      \<and> isValid (validateData data) = (errors (validateData data) = []))
   \<and> validateData (Obj [(''totalCost'', Str ''x'')]) =
        \<lparr>isValid = False, errors = [''totalCost must be a number'']\<rparr>"
proof (intro conjI)
  show "\<not> (truthy data \<and> typeof data = ''object'') \<longrightarrow>
      validateData data = \<lparr>isValid = False, errors = [''Data must be an object'']\<rparr>"
    by (simp add: validateData_def)
  show "validateData (Obj [(''totalCost'', Str ''x'')]) =
        \<lparr>isValid = False, errors = [''totalCost must be a number'']\<rparr>"
    by (simp add: validateData_def)
qed (auto simp: validateData_def Let_def)

theorem validate_accumulates_witness:
  "validateData Null = \<lparr>isValid = False, errors = [''Data must be an object'']\<rparr>
   \<and> validateData (Str ''text'') = \<lparr>isValid = False, errors = [''Data must be an object'']\<rparr>
   \<and> errors (validateData (Obj [(''totalCost'', Str ''x''), (''byModel'', Str ''invalid'')])) =
        [''totalCost must be a number'', ''byModel must be an object'']
   \<and> length (errors (validateData (Obj [(''totalCost'', Str ''x''), (''byModel'', Str ''invalid'')]))) = 2"
  using validate_accumulates[of Null] validate_accumulates[of "Str ''text''"]
    validate_accumulates[of "Obj [(''totalCost'', Str ''x''), (''byModel'', Str ''invalid'')]"]
  by simp

end
